theory Spec2Isabelle
  imports Main
begin

section \<open>The OAuth adaptor (adaptors/oauth/oauth.go)\<close>

subsection \<open>Values, errors and results\<close>

text \<open>
  A Go \<open>error\<close> value is modelled by its message (what \<open>err.Error()\<close> returns);
  the nil error is \<open>None\<close>. A Go function returning \<open>(T, error)\<close> returns the pair
  of both values, so that the value returned beside a non-nil error stays visible.
\<close>

datatype error = Error string

fun Error_msg :: "error \<Rightarrow> string" where
  "Error_msg (Error m) = m"

type_synonym 'a result = "'a \<times> error option"

text \<open>
  The fields of \<open>goth.User\<close> that carry the identity of the user; \<open>zero_User\<close> is
  the Go zero value \<open>goth.User{}\<close>.
\<close>

record goth_User =
  Provider :: string
  UserID :: string
  Name :: string
  Email :: string
  AccessToken :: string

definition zero_User :: goth_User where
  "zero_User = \<lparr>Provider = '''', UserID = '''', Name = '''', Email = '''', AccessToken = ''''\<rparr>"

text \<open>
  An \<open>interface{}\<close> value as the adaptor stores and reads it: nil, a string (the
  marshalled session), a \<open>goth.User\<close>, or a value of some other dynamic type.
\<close>

datatype iface = Nil | StringVal string | UserVal goth_User | OtherVal nat

subsection \<open>The request context\<close>

text \<open>
  What the adaptor does to the client and to the framework during one request is
  recorded, in order, in the context's \<open>effects\<close>.
\<close>

datatype LogMode = ProdMode | DevMode

datatype effect =
    EmitErrorEv nat
  | RedirectEv string
  | LogEv LogMode string
  | NextEv

record Context =
  params :: "string \<rightharpoonup> string"
  urlparams :: "string \<rightharpoonup> string"
  session :: "string \<rightharpoonup> iface"
  vals :: "string \<rightharpoonup> iface"
  Path :: string
  effects :: "effect list"

definition StatusUnauthorized :: nat where
  "StatusUnauthorized = 401"

definition StatusNotFound :: nat where
  "StatusNotFound = 404"

text \<open>\<open>ctx.Param(key)\<close>: the named path parameter, the empty string when there is none.\<close>

definition Param :: "Context \<Rightarrow> string \<Rightarrow> string" where
  "Param ctx key = (case params ctx key of None \<Rightarrow> '''' | Some v \<Rightarrow> v)"

text \<open>\<open>ctx.URLParam(key)\<close>: the URL query parameter, the empty string when there is none.\<close>

definition URLParam :: "Context \<Rightarrow> string \<Rightarrow> string" where
  "URLParam ctx key = (case urlparams ctx key of None \<Rightarrow> '''' | Some v \<Rightarrow> v)"

subsection \<open>Configuration\<close>

record Config =
  RequestPath :: string
  RequestPathParam :: string
  CallbackRelativePath :: string
  RouteName :: string
  ContextKey :: string
  GithubKey :: string
  GithubSecret :: string
  GithubName :: string
  FacebookKey :: string
  FacebookSecret :: string
  FacebookName :: string
  GplusKey :: string
  GplusSecret :: string
  GplusName :: string

subsection \<open>Resolving the provider name\<close>

definition GetProviderName :: "Config \<Rightarrow> Context \<Rightarrow> string result" where
  "GetProviderName cfg ctx =
     (let provider = Param ctx (RequestPathParam cfg);
          provider = (if provider = '''' then URLParam ctx (RequestPathParam cfg) else provider)
      in if provider = ''''
         then (provider, Some (Error ''getProviderName error: you must select a provider''))
         else (provider, None))"

subsection \<open>The provider library (goth)\<close>

text \<open>
  A \<open>goth.Provider\<close> value: which provider implementation it is, the name it
  registers under (\<open>provider.Name()\<close>), and what it was constructed from.
\<close>

datatype provider_kind = Github | Facebook | Gplus

record goth_Provider =
  Kind :: provider_kind
  ProviderName :: string
  ClientKey :: string
  Secret :: string
  CallbackBase :: string

text \<open>
  The package-level registry of goth, from provider name to provider.
  \<open>goth.UseProviders\<close> stores each provider under its name, in order;
  \<open>goth.GetProvider\<close> returns the provider stored under a name, or an error when
  there is none.
\<close>

type_synonym registry = "string \<rightharpoonup> goth_Provider"

fun UseProviders :: "registry \<Rightarrow> goth_Provider list \<Rightarrow> registry" where
  "UseProviders reg [] = reg"
| "UseProviders reg (p # ps) = UseProviders (reg(ProviderName p \<mapsto> p)) ps"

definition GetProvider :: "registry \<Rightarrow> string \<Rightarrow> error + goth_Provider" where
  "GetProvider reg name =
     (case reg name of
        None \<Rightarrow> Inl (Error (''no provider for '' @ name @ '' exists''))
      | Some provider \<Rightarrow> Inr provider)"

text \<open>
  The calls into a provider and into its sessions are outside this repository: they
  are parameters of the model. \<open>'s\<close> is the provider-defined session type. Each call
  that returns \<open>(value, error)\<close> and whose value the adaptor reads only when the error
  is nil returns a sum; \<open>FetchUser\<close>, whose two results the adaptor passes on as they
  are, returns the pair. \<open>Authorize\<close> updates the session it is called on and returns
  the updated session.
\<close>

record 's goth_lib =
  BeginAuth :: "goth_Provider \<Rightarrow> string \<Rightarrow> error + 's"
  UnmarshalSession :: "goth_Provider \<Rightarrow> string \<Rightarrow> error + 's"
  FetchUser :: "goth_Provider \<Rightarrow> 's \<Rightarrow> goth_User result"
  SessionGetAuthURL :: "'s \<Rightarrow> error + string"
  SessionMarshal :: "'s \<Rightarrow> string"
  SessionAuthorize :: "'s \<Rightarrow> goth_Provider \<Rightarrow> (string \<rightharpoonup> string) \<Rightarrow> error + 's"

subsection \<open>Session store and context values\<close>

definition SessionValueKey :: string where
  "SessionValueKey = ''auth.session''"

text \<open>\<open>ctx.Session().Get(key)\<close>: the stored value, nil when there is none.\<close>

definition Session_Get :: "Context \<Rightarrow> string \<Rightarrow> iface" where
  "Session_Get ctx key = (case session ctx key of None \<Rightarrow> Nil | Some v \<Rightarrow> v)"

text \<open>\<open>ctx.Session().GetString(key)\<close>: the stored value if it is a string, else the empty string.\<close>

definition Session_GetString :: "Context \<Rightarrow> string \<Rightarrow> string" where
  "Session_GetString ctx key = (case Session_Get ctx key of StringVal v \<Rightarrow> v | _ \<Rightarrow> '''')"

definition Session_Set :: "Context \<Rightarrow> string \<Rightarrow> iface \<Rightarrow> Context" where
  "Session_Set ctx key v = ctx\<lparr>session := (session ctx)(key \<mapsto> v)\<rparr>"

text \<open>\<open>ctx.Get(key)\<close> and \<open>ctx.Set(key, value)\<close> on the values of the context.\<close>

definition Get :: "Context \<Rightarrow> string \<Rightarrow> iface" where
  "Get ctx key = (case vals ctx key of None \<Rightarrow> Nil | Some v \<Rightarrow> v)"

definition Set :: "Context \<Rightarrow> string \<Rightarrow> iface \<Rightarrow> Context" where
  "Set ctx key v = ctx\<lparr>vals := (vals ctx)(key \<mapsto> v)\<rparr>"

text \<open>
  The responses. \<open>ctx.EmitError(code)\<close> fires the framework's error handler for the
  status code; \<open>ctx.NotFound()\<close> emits the 404 error; \<open>ctx.Redirect(url)\<close> redirects
  the client; \<open>s.Log(mode, msg)\<close> hands a message to the framework's logger.
\<close>

definition EmitError :: "Context \<Rightarrow> nat \<Rightarrow> Context" where
  "EmitError ctx code = ctx\<lparr>effects := effects ctx @ [EmitErrorEv code]\<rparr>"

definition NotFound :: "Context \<Rightarrow> Context" where
  "NotFound ctx = ctx\<lparr>effects := effects ctx @ [EmitErrorEv StatusNotFound]\<rparr>"

definition Redirect :: "Context \<Rightarrow> string \<Rightarrow> Context" where
  "Redirect ctx url = ctx\<lparr>effects := effects ctx @ [RedirectEv url]\<rparr>"

definition Log :: "Context \<Rightarrow> LogMode \<Rightarrow> string \<Rightarrow> Context" where
  "Log ctx mode msg = ctx\<lparr>effects := effects ctx @ [LogEv mode msg]\<rparr>"

text \<open>
  \<open>ctx.Next()\<close> runs the rest of the handler chain of the route, here the
  function \<open>rest\<close>.
\<close>

definition Next :: "(Context \<Rightarrow> Context) \<Rightarrow> Context \<Rightarrow> Context" where
  "Next rest ctx = rest (ctx\<lparr>effects := effects ctx @ [NextEv]\<rparr>)"

subsection \<open>Beginning and completing the authentication\<close>

definition setState :: "Context \<Rightarrow> string" where
  "setState ctx = (let state = URLParam ctx ''state'' in if length state > 0 then state else ''state'')"

definition GetState :: "Context \<Rightarrow> string" where
  "GetState ctx = URLParam ctx ''state''"

text \<open>\<open>GetAuthURL\<close> returns its two results and the context, whose session it may have written.\<close>

definition GetAuthURL :: "'s goth_lib \<Rightarrow> registry \<Rightarrow> Config \<Rightarrow> Context \<Rightarrow> string result \<times> Context" where
  "GetAuthURL lib reg cfg ctx =
     (case GetProviderName cfg ctx of
        (providerName, Some err) \<Rightarrow> (('''', Some err), ctx)
      | (providerName, None) \<Rightarrow>
     (case GetProvider reg providerName of
        Inl err \<Rightarrow> (('''', Some err), ctx)
      | Inr provider \<Rightarrow>
     (case BeginAuth lib provider (setState ctx) of
        Inl err \<Rightarrow> (('''', Some err), ctx)
      | Inr sess \<Rightarrow>
     (case SessionGetAuthURL lib sess of
        Inl err \<Rightarrow> (('''', Some err), ctx)
      | Inr url \<Rightarrow>
          ((url, None), Session_Set ctx SessionValueKey (StringVal (SessionMarshal lib sess)))))))"

definition CompleteUserAuth :: "'s goth_lib \<Rightarrow> registry \<Rightarrow> Config \<Rightarrow> Context \<Rightarrow> goth_User result" where
  "CompleteUserAuth lib reg cfg ctx =
     (case GetProviderName cfg ctx of
        (providerName, Some err) \<Rightarrow> (zero_User, Some err)
      | (providerName, None) \<Rightarrow>
     (case GetProvider reg providerName of
        Inl err \<Rightarrow> (zero_User, Some err)
      | Inr provider \<Rightarrow>
     if Session_Get ctx SessionValueKey = Nil
     then (zero_User,
           Some (Error ''completeUserAuth error: could not find a matching session for this request''))
     else
     (case UnmarshalSession lib provider (Session_GetString ctx SessionValueKey) of
        Inl err \<Rightarrow> (zero_User, Some err)
      | Inr sess \<Rightarrow>
     (case SessionAuthorize lib sess provider (urlparams ctx) of
        Inl err \<Rightarrow> (zero_User, Some err)
      | Inr sess' \<Rightarrow> FetchUser lib provider sess'))))"

text \<open>\<open>BeginAuthHandler\<close> returns the error and the context after its response.\<close>

definition BeginAuthHandler :: "'s goth_lib \<Rightarrow> registry \<Rightarrow> Config \<Rightarrow> Context \<Rightarrow> error option \<times> Context" where
  "BeginAuthHandler lib reg cfg ctx =
     (case GetAuthURL lib reg cfg ctx of
        ((url, Some err), ctx') \<Rightarrow> (Some err, NotFound ctx')
      | ((url, None), ctx') \<Rightarrow> (None, Redirect ctx' url))"

subsection \<open>The user of a context\<close>

text \<open>
  \<open>ctx.Get(key).(goth.User)\<close> is the one-result form of the type assertion: when the
  value is not a \<open>goth.User\<close> (nil included) it panics.
\<close>

datatype panic = TypeAssertionPanic

definition User :: "Config \<Rightarrow> Context \<Rightarrow> panic + goth_User" where
  "User cfg ctx =
     (case Get ctx (ContextKey cfg) of
        UserVal u \<Rightarrow> Inr u
      | _ \<Rightarrow> Inl TypeAssertionPanic)"

subsection \<open>Handlers\<close>

text \<open>
  An \<open>iris.HandlerFunc\<close> is one of the two closures that \<open>boot\<close> builds, or a handler
  of the application. A handler of the application is a function of what
  \<open>ctx.Next()\<close> runs and of the context.
\<close>

datatype HandlerFunc =
    BeginAuthRoute
  | AuthMiddleware
  | AppHandler "(Context \<Rightarrow> Context) \<Rightarrow> Context \<Rightarrow> Context"

definition runtime_error_msg :: "Context \<Rightarrow> error \<Rightarrow> string" where
  "runtime_error_msg ctx err =
     ''oauth adaptor runtime error on '' @ [CHR 0x27] @ Path ctx @ [CHR 0x27] @ ''. Trace: ''
       @ Error_msg err"

text \<open>The closure registered on the request path.\<close>

definition beginAuthRoute :: "'s goth_lib \<Rightarrow> registry \<Rightarrow> Config \<Rightarrow> Context \<Rightarrow> Context" where
  "beginAuthRoute lib reg cfg ctx =
     (case BeginAuthHandler lib reg cfg ctx of
        (Some err, ctx') \<Rightarrow> Log ctx' DevMode (runtime_error_msg ctx' err)
      | (None, ctx') \<Rightarrow> ctx')"

text \<open>The closure \<open>authMiddleware\<close>, the first handler of the callback path.\<close>

definition authMiddleware ::
  "'s goth_lib \<Rightarrow> registry \<Rightarrow> Config \<Rightarrow> (Context \<Rightarrow> Context) \<Rightarrow> Context \<Rightarrow> Context" where
  "authMiddleware lib reg cfg rest ctx =
     (case CompleteUserAuth lib reg cfg ctx of
        (user, Some err) \<Rightarrow>
          (let ctx' = EmitError ctx StatusUnauthorized
           in Log ctx' DevMode (runtime_error_msg ctx' err))
      | (user, None) \<Rightarrow> Next rest (Set ctx (ContextKey cfg) (UserVal user)))"

text \<open>Serving a request with the handlers of a route: the first runs, and its \<open>ctx.Next()\<close> runs the following ones.\<close>

fun Do :: "'s goth_lib \<Rightarrow> registry \<Rightarrow> Config \<Rightarrow> HandlerFunc list \<Rightarrow> Context \<Rightarrow> Context" where
  "Do lib reg cfg [] ctx = ctx"
| "Do lib reg cfg (BeginAuthRoute # hs) ctx = beginAuthRoute lib reg cfg ctx"
| "Do lib reg cfg (AuthMiddleware # hs) ctx = authMiddleware lib reg cfg (Do lib reg cfg hs) ctx"
| "Do lib reg cfg (AppHandler h # hs) ctx = h (Do lib reg cfg hs) ctx"

text \<open>
  The effects that \<open>authMiddleware\<close> adds itself: those of a chain in which no
  handler follows it.
\<close>

definition middleware_effects :: "'s goth_lib \<Rightarrow> registry \<Rightarrow> Config \<Rightarrow> Context \<Rightarrow> effect list" where
  "middleware_effects lib reg cfg ctx =
     drop (length (effects ctx)) (effects (Do lib reg cfg [AuthMiddleware] ctx))"

subsection \<open>The adaptor and the framework\<close>

record Route =
  route_path :: string
  route_name :: string
  route_handlers :: "HandlerFunc list"

record Framework =
  VScheme :: string
  VHost :: string
  routes :: "Route list"
  errorHandlers :: "nat \<rightharpoonup> HandlerFunc"
  logged :: "(LogMode \<times> string) list"

text \<open>\<open>station\<close> tells whether the pointer to the framework is set.\<close>

record Oauth =
  Config :: Config
  successHandlers :: "HandlerFunc list"
  failHandler :: "HandlerFunc option"
  station :: bool

definition Success :: "Oauth \<Rightarrow> HandlerFunc list \<Rightarrow> Oauth" where
  "Success p handlersFn = p\<lparr>successHandlers := successHandlers p @ handlersFn\<rparr>"

definition Fail :: "Oauth \<Rightarrow> HandlerFunc \<Rightarrow> Oauth" where
  "Fail p handler = p\<lparr>failHandler := Some handler\<rparr>"

text \<open>\<open>s.Get(path, handlers...)\<close>, with the name that \<open>ChangeName\<close> gives the route.\<close>

definition HandleGet :: "Framework \<Rightarrow> string \<Rightarrow> HandlerFunc list \<Rightarrow> string \<Rightarrow> Framework" where
  "HandleGet s path handlers name =
     s\<lparr>routes := routes s @ [\<lparr>route_path = path, route_name = name, route_handlers = handlers\<rparr>]\<rparr>"

definition OnError :: "Framework \<Rightarrow> nat \<Rightarrow> HandlerFunc \<Rightarrow> Framework" where
  "OnError s code handler = s\<lparr>errorHandlers := (errorHandlers s)(code \<mapsto> handler)\<rparr>"

definition FrameworkLog :: "Framework \<Rightarrow> LogMode \<Rightarrow> string \<Rightarrow> Framework" where
  "FrameworkLog s mode msg = s\<lparr>logged := logged s @ [(mode, msg)]\<rparr>"

definition disabled_msg :: string where
  "disabled_msg =
     ''oauth adaptor disabled: Config.RequestPath or/and RequestPathParam or/and Config.CallbackRelativePath are empty,''
       @ [CHR 0x0A] @ ''please set them and restart the app''"

text \<open>
  Modelled from the spec: \<open>Config.GenerateProviders\<close>, which is declared in a file of
  the package that is not among the sources. The configuration is "a static record
  enumerating, per provider, a client key and secret"; the providers are those whose
  fields the example application sets. Each provider whose key and secret are both set
  gives one entry of the generated list.
\<close>

definition provider_entries :: "Config \<Rightarrow> (provider_kind \<times> string \<times> string \<times> string) list" where
  "provider_entries c =
     [(Github, GithubName c, GithubKey c, GithubSecret c),
      (Facebook, FacebookName c, FacebookKey c, FacebookSecret c),
      (Gplus, GplusName c, GplusKey c, GplusSecret c)]"

definition credentials_set :: "provider_kind \<times> string \<times> string \<times> string \<Rightarrow> bool" where
  "credentials_set e = (case e of (k, name, key, secret) \<Rightarrow> key \<noteq> '''' \<and> secret \<noteq> '''')"

definition new_provider :: "string \<Rightarrow> provider_kind \<times> string \<times> string \<times> string \<Rightarrow> goth_Provider" where
  "new_provider vhost e =
     (case e of (k, name, key, secret) \<Rightarrow>
        \<lparr>Kind = k, ProviderName = name, ClientKey = key, Secret = secret, CallbackBase = vhost\<rparr>)"

definition GenerateProviders :: "Config \<Rightarrow> string \<Rightarrow> goth_Provider list" where
  "GenerateProviders c vhost = map (new_provider vhost) (filter credentials_set (provider_entries c))"

text \<open>
  \<open>boot\<close> works on the adaptor, the framework and the registry of goth, and returns
  the three.
\<close>

definition boot :: "Oauth \<Rightarrow> Framework \<Rightarrow> registry \<Rightarrow> Oauth \<times> Framework \<times> registry" where
  "boot p s reg =
     (if RequestPath (Config p) = '''' \<or> CallbackRelativePath (Config p) = ''''
          \<or> RequestPathParam (Config p) = ''''
      then (p, FrameworkLog s ProdMode disabled_msg, reg)
      else
        let oauthProviders = GenerateProviders (Config p) (VScheme s @ VHost s)
        in if length oauthProviders > 0
           then
             let reg' = UseProviders reg oauthProviders;
                 s1 = HandleGet s (RequestPath (Config p)) [BeginAuthRoute] (RouteName (Config p));
                 p1 = p\<lparr>successHandlers := [AuthMiddleware] @ successHandlers p\<rparr>;
                 s2 = HandleGet s1 (RequestPath (Config p) @ CallbackRelativePath (Config p))
                        (successHandlers p1) '''';
                 p2 = p1\<lparr>station := True\<rparr>
             in (case failHandler p2 of
                   Some h \<Rightarrow> (p2, OnError s2 StatusUnauthorized h, reg')
                 | None \<Rightarrow> (p2, s2, reg'))
           else (p, s, reg))"

section \<open>Concrete inputs\<close>

text \<open>
  A provider library whose sessions are strings: a session is the state it was begun
  with, \<open>Authorize\<close> appends the \<open>code\<close> query parameter, and the user that is
  fetched carries the session as identifier. A provider constructed with the key
  \<open>revoked\<close> refuses to begin, and the session \<open>broken\<close> has no authorization URL.
\<close>

definition example_lib :: "string goth_lib" where
  "example_lib =
     \<lparr>BeginAuth = (\<lambda>p st. if ClientKey p = ''revoked''
                           then Inl (Error ''begin: client rejected'') else Inr st),
      UnmarshalSession = (\<lambda>p v. if v = [] then Inl (Error ''unmarshal: empty session'') else Inr v),
      FetchUser = (\<lambda>p sess. (zero_User\<lparr>Provider := ProviderName p, UserID := sess\<rparr>, None)),
      SessionGetAuthURL = (\<lambda>sess. if sess = ''broken''
                                   then Inl (Error ''session: no auth url'')
                                   else Inr (''https://provider.example/auth?state='' @ sess)),
      SessionMarshal = (\<lambda>sess. sess),
      SessionAuthorize = (\<lambda>sess p q. case q ''code'' of
                                         None \<Rightarrow> Inl (Error ''authorize: no code'')
                                       | Some c \<Rightarrow> Inr (sess @ c))\<rparr>"

text \<open>The configuration of the example application, with no credentials for Gplus.\<close>

definition example_cfg :: Config where
  "example_cfg =
     \<lparr>RequestPath = ''/oauth/{provider}'', RequestPathParam = ''provider'',
      CallbackRelativePath = ''/callback'', RouteName = ''oauth'', ContextKey = ''user'',
      GithubKey = ''gk'', GithubSecret = ''gs'', GithubName = ''github'',
      FacebookKey = ''revoked'', FacebookSecret = ''fs'', FacebookName = ''facebook'',
      GplusKey = '''', GplusSecret = '''', GplusName = ''gplus''\<rparr>"

definition no_path_cfg :: Config where
  "no_path_cfg = example_cfg\<lparr>RequestPath := ''''\<rparr>"

definition no_credentials_cfg :: Config where
  "no_credentials_cfg =
     example_cfg\<lparr>GithubKey := '''', GithubSecret := '''', FacebookKey := '''', FacebookSecret := ''''\<rparr>"

definition example_registry :: registry where
  "example_registry = UseProviders Map.empty (GenerateProviders example_cfg ''http://localhost:8080'')"

definition bare_ctx :: Context where
  "bare_ctx =
     \<lparr>params = Map.empty, urlparams = Map.empty, session = Map.empty, vals = Map.empty,
      Path = ''/oauth'', effects = []\<rparr>"

definition github_ctx :: Context where
  "github_ctx = bare_ctx\<lparr>params := [''provider'' \<mapsto> ''github''], Path := ''/oauth/github''\<rparr>"

definition facebook_ctx :: Context where
  "facebook_ctx = bare_ctx\<lparr>params := [''provider'' \<mapsto> ''facebook''], Path := ''/oauth/facebook''\<rparr>"

definition gplus_ctx :: Context where
  "gplus_ctx = bare_ctx\<lparr>params := [''provider'' \<mapsto> ''gplus''], Path := ''/oauth/gplus''\<rparr>"

definition query_ctx :: Context where
  "query_ctx = bare_ctx\<lparr>urlparams := [''provider'' \<mapsto> ''facebook'']\<rparr>"

definition broken_ctx :: Context where
  "broken_ctx = github_ctx\<lparr>urlparams := [''state'' \<mapsto> ''broken'']\<rparr>"

definition callback_ctx :: Context where
  "callback_ctx =
     bare_ctx\<lparr>params := [''provider'' \<mapsto> ''github''], urlparams := [''code'' \<mapsto> ''42''],
              session := [SessionValueKey \<mapsto> StringVal ''state''],
              Path := ''/oauth/github/callback''\<rparr>"

definition welcome_page :: HandlerFunc where
  "welcome_page = AppHandler (\<lambda>rest ctx. Redirect ctx ''/welcome'')"

definition denied_page :: HandlerFunc where
  "denied_page = AppHandler (\<lambda>rest ctx. Redirect ctx ''/denied'')"

definition example_framework :: Framework where
  "example_framework =
     \<lparr>VScheme = ''http://'', VHost = ''localhost:8080'', routes = [], errorHandlers = Map.empty,
      logged = []\<rparr>"

definition example_oauth :: "Config \<Rightarrow> Oauth" where
  "example_oauth cfg =
     \<lparr>Config = cfg, successHandlers = [welcome_page], failHandler = Some denied_page, station = False\<rparr>"

definition empty_registry :: registry where
  "empty_registry = Map.empty"

section \<open>Properties\<close>

lemmas example_defs =
  example_lib_def example_cfg_def no_path_cfg_def no_credentials_cfg_def example_registry_def
  bare_ctx_def github_ctx_def facebook_ctx_def gplus_ctx_def query_ctx_def broken_ctx_def
  callback_ctx_def welcome_page_def denied_page_def example_framework_def example_oauth_def

lemmas context_defs =
  Param_def URLParam_def Session_Get_def Session_GetString_def Session_Set_def SessionValueKey_def
  Get_def Set_def EmitError_def NotFound_def Redirect_def Log_def Next_def runtime_error_msg_def
  StatusNotFound_def StatusUnauthorized_def

lemmas provider_defs =
  GetProvider_def GenerateProviders_def provider_entries_def credentials_set_def new_provider_def
  zero_User_def setState_def

lemmas auth_defs =
  GetProviderName_def GetAuthURL_def CompleteUserAuth_def BeginAuthHandler_def beginAuthRoute_def
  authMiddleware_def

subsection \<open>Facts about the steps\<close>

lemma GetAuthURL_error:
  assumes "snd (fst (GetAuthURL lib reg cfg ctx)) = Some err"
  shows "GetAuthURL lib reg cfg ctx = (('''', Some err), ctx)"
  using assms
  by (auto simp: GetAuthURL_def split: prod.splits option.splits sum.splits)

lemma GetAuthURL_success:
  assumes "snd (fst (GetAuthURL lib reg cfg ctx)) = None"
  shows "\<exists>sess. snd (GetAuthURL lib reg cfg ctx) =
           ctx\<lparr>session := (session ctx)(SessionValueKey \<mapsto> StringVal (SessionMarshal lib sess))\<rparr>"
  using assms
  by (auto simp: GetAuthURL_def Session_Set_def split: prod.splits option.splits sum.splits)

lemma authMiddleware_failure:
  assumes "snd (CompleteUserAuth lib reg cfg ctx) = Some err"
  shows "authMiddleware lib reg cfg rest ctx =
           ctx\<lparr>effects := effects ctx @
                  [EmitErrorEv StatusUnauthorized, LogEv DevMode (runtime_error_msg ctx err)]\<rparr>"
proof -
  from assms obtain user where "CompleteUserAuth lib reg cfg ctx = (user, Some err)"
    by (cases "CompleteUserAuth lib reg cfg ctx") simp
  then show ?thesis
    by (simp add: authMiddleware_def EmitError_def Log_def runtime_error_msg_def Let_def)
qed

lemma authMiddleware_success:
  assumes "snd (CompleteUserAuth lib reg cfg ctx) = None"
  shows "authMiddleware lib reg cfg rest ctx =
           rest (ctx\<lparr>vals := (vals ctx)(ContextKey cfg \<mapsto> UserVal (fst (CompleteUserAuth lib reg cfg ctx))),
                     effects := effects ctx @ [NextEv]\<rparr>)"
proof -
  from assms obtain user where "CompleteUserAuth lib reg cfg ctx = (user, None)"
    by (cases "CompleteUserAuth lib reg cfg ctx") simp
  then show ?thesis
    by (simp add: authMiddleware_def Next_def Set_def)
qed

text \<open>What \<open>boot\<close> registers when the adaptor is enabled.\<close>

lemma boot_enabled:
  assumes "RequestPath (Config p) \<noteq> ''''" and "CallbackRelativePath (Config p) \<noteq> ''''"
    and "RequestPathParam (Config p) \<noteq> ''''"
    and "GenerateProviders (Config p) (VScheme s @ VHost s) \<noteq> []"
    and "boot p s reg = (p', s', reg')"
  shows "reg' = UseProviders reg (GenerateProviders (Config p) (VScheme s @ VHost s))"
    and "successHandlers p' = AuthMiddleware # successHandlers p"
    and "routes s' = routes s @
           [\<lparr>route_path = RequestPath (Config p), route_name = RouteName (Config p),
              route_handlers = [BeginAuthRoute]\<rparr>,
            \<lparr>route_path = RequestPath (Config p) @ CallbackRelativePath (Config p), route_name = '''',
              route_handlers = AuthMiddleware # successHandlers p\<rparr>]"
    and "errorHandlers s' =
           (case failHandler p of
              None \<Rightarrow> errorHandlers s
            | Some h \<Rightarrow> (errorHandlers s)(StatusUnauthorized \<mapsto> h))"
  using assms
  by (auto simp: boot_def HandleGet_def OnError_def Let_def split: option.splits)

subsection \<open>Resolving the provider name\<close>

text \<open>
  Claim C5. \<open>GetProviderName\<close> fails exactly when the provider name is absent. When
  the path parameter and the URL query parameter named by \<open>Config.RequestPathParam\<close>
  are both empty, it returns the "you must select a provider" error. When at least one
  of them is non-empty, it returns a non-empty name (the path parameter if that one
  is non-empty, the query parameter otherwise) and no error.
\<close>

theorem GetProviderName_fails_iff_absent:
  "GetProviderName cfg ctx =
     (if Param ctx (RequestPathParam cfg) = '''' \<and> URLParam ctx (RequestPathParam cfg) = ''''
      then ('''', Some (Error ''getProviderName error: you must select a provider''))
      else if Param ctx (RequestPathParam cfg) \<noteq> ''''
      then (Param ctx (RequestPathParam cfg), None)
      else (URLParam ctx (RequestPathParam cfg), None))"
  by (simp add: GetProviderName_def Let_def)

text \<open>
  The three cases on requests: no provider parameter at all, the path parameter
  \<open>github\<close>, and the query parameter \<open>facebook\<close> alone.
\<close>

theorem GetProviderName_fails_iff_absent_witness:
  "GetProviderName example_cfg bare_ctx =
     ('''', Some (Error ''getProviderName error: you must select a provider''))
   \<and> GetProviderName example_cfg github_ctx = (''github'', None)
   \<and> GetProviderName example_cfg query_ctx = (''facebook'', None)"
  using GetProviderName_fails_iff_absent [of example_cfg bare_ctx]
    GetProviderName_fails_iff_absent [of example_cfg github_ctx]
    GetProviderName_fails_iff_absent [of example_cfg query_ctx]
  by (simp add: example_defs Param_def URLParam_def)

text \<open>
  Claim C9. \<open>GetProviderName\<close> gives the path parameter precedence over the URL
  query parameter. When the path parameter named by \<open>Config.RequestPathParam\<close> is
  non-empty, that value is returned whatever the query parameters \<open>q\<close> of the request
  are; the query parameter decides the result only when the path parameter is empty.
\<close>

theorem GetProviderName_path_param_first:
  "(Param ctx (RequestPathParam cfg) \<noteq> '''' \<longrightarrow>
      GetProviderName cfg (ctx\<lparr>urlparams := q\<rparr>) = (Param ctx (RequestPathParam cfg), None))
   \<and> (Param ctx (RequestPathParam cfg) = '''' \<longrightarrow>
      fst (GetProviderName cfg ctx) = URLParam ctx (RequestPathParam cfg))"
  by (simp add: GetProviderName_def Param_def Let_def)

text \<open>
  A request with the path parameter \<open>github\<close> and the query parameter \<open>facebook\<close>
  resolves to \<open>github\<close>; a request with the query parameter alone to \<open>facebook\<close>.
\<close>

theorem GetProviderName_path_param_first_witness:
  "Param github_ctx (RequestPathParam example_cfg) \<noteq> ''''
   \<and> GetProviderName example_cfg (github_ctx\<lparr>urlparams := [''provider'' \<mapsto> ''facebook'']\<rparr>)
        = (''github'', None)
   \<and> Param query_ctx (RequestPathParam example_cfg) = ''''
   \<and> fst (GetProviderName example_cfg query_ctx) = ''facebook''"
  using GetProviderName_path_param_first
          [of github_ctx example_cfg "[''provider'' \<mapsto> ''facebook'']"]
    GetProviderName_path_param_first [of query_ctx example_cfg "urlparams query_ctx"]
  by (simp add: example_defs Param_def URLParam_def)

subsection \<open>Errors of the two operations\<close>

text \<open>
  Claim C3. When the provider name of the request resolves and no provider is
  registered under it in the registry, \<open>GetAuthURL\<close> and \<open>CompleteUserAuth\<close> both
  return the error of the registry lookup, beside the zero result (the empty URL, the
  zero user), and \<open>GetAuthURL\<close> leaves the context as it was.
\<close>

theorem unregistered_provider_lookup_error:
  assumes "GetProviderName cfg ctx = (name, None)" and "reg name = None"
  shows "GetProvider reg name = Inl (Error (''no provider for '' @ name @ '' exists''))
       \<and> GetAuthURL lib reg cfg ctx =
           (('''', Some (Error (''no provider for '' @ name @ '' exists''))), ctx)
       \<and> CompleteUserAuth lib reg cfg ctx =
           (zero_User, Some (Error (''no provider for '' @ name @ '' exists'')))"
  using assms by (simp add: GetProvider_def GetAuthURL_def CompleteUserAuth_def)

text \<open>No provider is registered under \<open>gplus\<close>, which the example configuration gives no credentials.\<close>

theorem unregistered_provider_lookup_error_witness:
  "GetProviderName example_cfg gplus_ctx = (''gplus'', None)
   \<and> example_registry ''gplus'' = None
   \<and> GetAuthURL example_lib example_registry example_cfg gplus_ctx =
        (('''', Some (Error ''no provider for gplus exists'')), gplus_ctx)
   \<and> CompleteUserAuth example_lib example_registry example_cfg gplus_ctx =
        (zero_User, Some (Error ''no provider for gplus exists''))"
proof -
  have name: "GetProviderName example_cfg gplus_ctx = (''gplus'', None)"
    by (simp add: example_defs GetProviderName_def Param_def URLParam_def)
  have unregistered: "example_registry ''gplus'' = None"
    by (simp add: example_defs provider_defs)
  from unregistered_provider_lookup_error
         [where cfg = example_cfg and ctx = gplus_ctx and name = "''gplus''"
            and reg = example_registry and lib = example_lib, OF name unregistered]
  show ?thesis using name unregistered by simp
qed

text \<open>
  Claim C2, as amended. When the provider name of a callback request resolves to a
  registered provider and the session store has no entry under \<open>SessionValueKey\<close>,
  \<open>CompleteUserAuth\<close> returns the "could not find a matching session" error beside
  the zero user, whatever the query parameters, the values of the context and the
  provider library are.
\<close>

theorem CompleteUserAuth_no_session:
  assumes "GetProviderName cfg ctx = (name, None)" and "reg name = Some provider"
    and "session ctx SessionValueKey = None"
  shows "CompleteUserAuth lib reg cfg ctx =
     (zero_User,
      Some (Error ''completeUserAuth error: could not find a matching session for this request''))"
  using assms by (simp add: GetProvider_def CompleteUserAuth_def Session_Get_def)

text \<open>A callback for \<open>github\<close>, which is registered, with an empty session store.\<close>

theorem CompleteUserAuth_no_session_witness:
  "GetProviderName example_cfg github_ctx = (''github'', None)
   \<and> example_registry ''github'' \<noteq> None
   \<and> session github_ctx SessionValueKey = None
   \<and> CompleteUserAuth example_lib example_registry example_cfg github_ctx =
       (zero_User,
        Some (Error ''completeUserAuth error: could not find a matching session for this request''))"
proof -
  have name: "GetProviderName example_cfg github_ctx = (''github'', None)"
    by (simp add: example_defs GetProviderName_def Param_def URLParam_def)
  have registered: "example_registry ''github'' =
      Some \<lparr>Kind = Github, ProviderName = ''github'', ClientKey = ''gk'', Secret = ''gs'',
            CallbackBase = ''http://localhost:8080''\<rparr>"
    by (simp add: example_defs provider_defs)
  have no_session: "session github_ctx SessionValueKey = None"
    by (simp add: example_defs)
  from CompleteUserAuth_no_session
         [where cfg = example_cfg and ctx = github_ctx and name = "''github''"
            and reg = example_registry and lib = example_lib, OF name registered no_session]
  show ?thesis using name registered no_session by simp
qed

text \<open>
  The claim as it is written fails: of two callback requests with an empty session
  store, the one for \<open>gplus\<close>, which is not registered, gets the error of the provider
  lookup, and the one without provider parameter the error of the name resolution.
  Both checks come before the session is read.
\<close>

theorem CompleteUserAuth_no_session_counterexample:
  "session gplus_ctx SessionValueKey = None
   \<and> CompleteUserAuth example_lib example_registry example_cfg gplus_ctx =
       (zero_User, Some (Error ''no provider for gplus exists''))
   \<and> snd (CompleteUserAuth example_lib example_registry example_cfg gplus_ctx) \<noteq>
       Some (Error ''completeUserAuth error: could not find a matching session for this request'')
   \<and> session bare_ctx SessionValueKey = None
   \<and> CompleteUserAuth example_lib example_registry example_cfg bare_ctx =
       (zero_User, Some (Error ''getProviderName error: you must select a provider''))
   \<and> snd (CompleteUserAuth example_lib example_registry example_cfg bare_ctx) \<noteq>
       Some (Error ''completeUserAuth error: could not find a matching session for this request'')"
  by (simp add: example_defs CompleteUserAuth_def GetProviderName_def Param_def URLParam_def
      provider_defs)

subsection \<open>Responses of the two routes\<close>

text \<open>
  Claim C1, as amended. A request to the callback route for which \<open>CompleteUserAuth\<close>
  returns an error, of whatever kind, is answered with the 401 Unauthorized error, and
  the error is logged. A request to the request-initiation route for which
  \<open>GetAuthURL\<close> returns an error, of whatever kind, is answered with the 404 Not Found
  error of \<open>ctx.NotFound()\<close>, and the error is logged. Neither does anything else to
  the context.
\<close>

theorem failure_status_per_route:
  "(snd (fst (GetAuthURL lib reg cfg ctx)) = Some err \<longrightarrow>
      beginAuthRoute lib reg cfg ctx =
        ctx\<lparr>effects := effects ctx @
               [EmitErrorEv StatusNotFound, LogEv DevMode (runtime_error_msg ctx err)]\<rparr>)
   \<and> (snd (CompleteUserAuth lib reg cfg ctx) = Some err' \<longrightarrow>
      authMiddleware lib reg cfg rest ctx =
        ctx\<lparr>effects := effects ctx @
               [EmitErrorEv StatusUnauthorized, LogEv DevMode (runtime_error_msg ctx err')]\<rparr>)"
proof (intro conjI impI)
  assume "snd (fst (GetAuthURL lib reg cfg ctx)) = Some err"
  then have "GetAuthURL lib reg cfg ctx = (('''', Some err), ctx)"
    by (rule GetAuthURL_error)
  then show "beginAuthRoute lib reg cfg ctx =
      ctx\<lparr>effects := effects ctx @
             [EmitErrorEv StatusNotFound, LogEv DevMode (runtime_error_msg ctx err)]\<rparr>"
    by (simp add: beginAuthRoute_def BeginAuthHandler_def NotFound_def Log_def
        runtime_error_msg_def)
next
  assume "snd (CompleteUserAuth lib reg cfg ctx) = Some err'"
  then show "authMiddleware lib reg cfg rest ctx =
      ctx\<lparr>effects := effects ctx @
             [EmitErrorEv StatusUnauthorized, LogEv DevMode (runtime_error_msg ctx err')]\<rparr>"
    by (rule authMiddleware_failure)
qed

text \<open>
  A request without provider parameter to the request-initiation route, and a callback
  for \<open>github\<close> without session.
\<close>

theorem failure_status_per_route_witness:
  "snd (fst (GetAuthURL example_lib example_registry example_cfg bare_ctx)) =
      Some (Error ''getProviderName error: you must select a provider'')
   \<and> effects (beginAuthRoute example_lib example_registry example_cfg bare_ctx) =
      [EmitErrorEv 404,
       LogEv DevMode (runtime_error_msg bare_ctx
         (Error ''getProviderName error: you must select a provider''))]
   \<and> snd (CompleteUserAuth example_lib example_registry example_cfg github_ctx) =
      Some (Error ''completeUserAuth error: could not find a matching session for this request'')
   \<and> effects (authMiddleware example_lib example_registry example_cfg (\<lambda>c. c) github_ctx) =
      [EmitErrorEv 401,
       LogEv DevMode (runtime_error_msg github_ctx
         (Error ''completeUserAuth error: could not find a matching session for this request''))]"
proof -
  have begin_fails:
    "snd (fst (GetAuthURL example_lib example_registry example_cfg bare_ctx)) =
       Some (Error ''getProviderName error: you must select a provider'')"
    by (simp add: example_defs GetAuthURL_def GetProviderName_def Param_def URLParam_def)
  have callback_fails:
    "snd (CompleteUserAuth example_lib example_registry example_cfg github_ctx) =
       Some (Error ''completeUserAuth error: could not find a matching session for this request'')"
    by (simp add: example_defs CompleteUserAuth_def GetProviderName_def Param_def URLParam_def
        provider_defs Session_Get_def)
  from failure_status_per_route
         [where lib = example_lib and reg = example_registry and cfg = example_cfg
            and ctx = bare_ctx
            and err = "Error ''getProviderName error: you must select a provider''",
          THEN conjunct1]
    failure_status_per_route
         [where lib = example_lib and reg = example_registry and cfg = example_cfg
            and ctx = github_ctx and rest = "\<lambda>c. c"
            and err' = "Error ''completeUserAuth error: could not find a matching session for this request''",
          THEN conjunct2]
  show ?thesis
    using begin_fails callback_fails
    by (simp add: StatusNotFound_def StatusUnauthorized_def bare_ctx_def github_ctx_def)
qed

text \<open>
  The claim as it is written fails on the request-initiation route: the request for
  \<open>gplus\<close>, which is not registered, and the request without provider parameter
  both fail there and are answered with 404, not with 401.
\<close>

theorem begin_route_failure_counterexample:
  "snd (fst (GetAuthURL example_lib example_registry example_cfg gplus_ctx)) =
      Some (Error ''no provider for gplus exists'')
   \<and> EmitErrorEv StatusUnauthorized \<notin>
       set (effects (beginAuthRoute example_lib example_registry example_cfg gplus_ctx))
   \<and> EmitErrorEv StatusNotFound \<in>
       set (effects (beginAuthRoute example_lib example_registry example_cfg gplus_ctx))
   \<and> snd (fst (GetAuthURL example_lib example_registry example_cfg bare_ctx)) =
      Some (Error ''getProviderName error: you must select a provider'')
   \<and> EmitErrorEv StatusUnauthorized \<notin>
       set (effects (beginAuthRoute example_lib example_registry example_cfg bare_ctx))
   \<and> EmitErrorEv StatusNotFound \<in>
       set (effects (beginAuthRoute example_lib example_registry example_cfg bare_ctx))"
  by (simp add: example_defs auth_defs context_defs provider_defs)

text \<open>
  Claim C4. On a callback request the success handlers and the failure response exclude
  each other. When \<open>CompleteUserAuth\<close> returns an error, the middleware emits 401 and
  logs, and the handlers \<open>hs\<close> that follow it in the chain do not run: the result does
  not depend on them and \<open>ctx.Next()\<close> is not called. When it returns no error, the
  middleware stores the user under \<open>Config.ContextKey\<close>, calls \<open>ctx.Next()\<close> and the
  handlers that follow run on that context; the middleware emits no error. So the
  middleware emits 401 exactly when it does not call \<open>ctx.Next()\<close>.
\<close>

theorem callback_success_failure_exclusive:
  "(snd (CompleteUserAuth lib reg cfg ctx) = Some err \<longrightarrow>
      Do lib reg cfg (AuthMiddleware # hs) ctx =
        ctx\<lparr>effects := effects ctx @
               [EmitErrorEv StatusUnauthorized, LogEv DevMode (runtime_error_msg ctx err)]\<rparr>)
   \<and> (snd (CompleteUserAuth lib reg cfg ctx) = None \<longrightarrow>
      Do lib reg cfg (AuthMiddleware # hs) ctx =
        Do lib reg cfg hs
          (ctx\<lparr>vals := (vals ctx)(ContextKey cfg \<mapsto> UserVal (fst (CompleteUserAuth lib reg cfg ctx))),
               effects := effects ctx @ [NextEv]\<rparr>))
   \<and> (EmitErrorEv StatusUnauthorized \<in> set (middleware_effects lib reg cfg ctx)
        \<longleftrightarrow> NextEv \<notin> set (middleware_effects lib reg cfg ctx))
   \<and> (NextEv \<in> set (middleware_effects lib reg cfg ctx)
        \<longleftrightarrow> snd (CompleteUserAuth lib reg cfg ctx) = None)"
proof (intro conjI impI)
  assume "snd (CompleteUserAuth lib reg cfg ctx) = Some err"
  then show "Do lib reg cfg (AuthMiddleware # hs) ctx =
      ctx\<lparr>effects := effects ctx @
             [EmitErrorEv StatusUnauthorized, LogEv DevMode (runtime_error_msg ctx err)]\<rparr>"
    by (simp add: authMiddleware_failure)
next
  assume "snd (CompleteUserAuth lib reg cfg ctx) = None"
  then show "Do lib reg cfg (AuthMiddleware # hs) ctx =
      Do lib reg cfg hs
        (ctx\<lparr>vals := (vals ctx)(ContextKey cfg \<mapsto> UserVal (fst (CompleteUserAuth lib reg cfg ctx))),
             effects := effects ctx @ [NextEv]\<rparr>)"
    by (simp add: authMiddleware_success)
next
  show "EmitErrorEv StatusUnauthorized \<in> set (middleware_effects lib reg cfg ctx)
      \<longleftrightarrow> NextEv \<notin> set (middleware_effects lib reg cfg ctx)"
  proof (cases "snd (CompleteUserAuth lib reg cfg ctx)")
    case None
    then show ?thesis
      by (simp add: middleware_effects_def authMiddleware_success)
  next
    case (Some e)
    then show ?thesis
      by (simp add: middleware_effects_def authMiddleware_failure)
  qed
next
  show "NextEv \<in> set (middleware_effects lib reg cfg ctx)
      \<longleftrightarrow> snd (CompleteUserAuth lib reg cfg ctx) = None"
  proof (cases "snd (CompleteUserAuth lib reg cfg ctx)")
    case None
    then show ?thesis
      by (simp add: middleware_effects_def authMiddleware_success)
  next
    case (Some e)
    then show ?thesis
      by (simp add: middleware_effects_def authMiddleware_failure)
  qed
qed

text \<open>
  With the success handler of the example: the callback without session is answered
  with 401 and nothing else, the callback with a session reaches the handler.
\<close>

theorem callback_success_failure_exclusive_witness:
  "snd (CompleteUserAuth example_lib example_registry example_cfg github_ctx) =
      Some (Error ''completeUserAuth error: could not find a matching session for this request'')
   \<and> effects (Do example_lib example_registry example_cfg [AuthMiddleware, welcome_page] github_ctx) =
      [EmitErrorEv 401,
       LogEv DevMode (runtime_error_msg github_ctx
         (Error ''completeUserAuth error: could not find a matching session for this request''))]
   \<and> snd (CompleteUserAuth example_lib example_registry example_cfg callback_ctx) = None
   \<and> effects (Do example_lib example_registry example_cfg [AuthMiddleware, welcome_page] callback_ctx) =
      [NextEv, RedirectEv ''/welcome'']"
proof -
  have fails:
    "snd (CompleteUserAuth example_lib example_registry example_cfg github_ctx) =
       Some (Error ''completeUserAuth error: could not find a matching session for this request'')"
    by (simp add: example_defs CompleteUserAuth_def GetProviderName_def Param_def URLParam_def
        provider_defs Session_Get_def)
  have succeeds:
    "snd (CompleteUserAuth example_lib example_registry example_cfg callback_ctx) = None"
    by (simp add: example_defs CompleteUserAuth_def GetProviderName_def Param_def URLParam_def
        provider_defs Session_Get_def Session_GetString_def SessionValueKey_def)
  from callback_success_failure_exclusive
         [where lib = example_lib and reg = example_registry and cfg = example_cfg
            and ctx = github_ctx and hs = "[welcome_page]"
            and err = "Error ''completeUserAuth error: could not find a matching session for this request''",
          THEN conjunct1]
    callback_success_failure_exclusive
         [where lib = example_lib and reg = example_registry and cfg = example_cfg
            and ctx = callback_ctx and hs = "[welcome_page]",
          THEN conjunct2, THEN conjunct1]
  show ?thesis
    using fails succeeds
    by (simp add: StatusUnauthorized_def welcome_page_def Redirect_def bare_ctx_def github_ctx_def
        callback_ctx_def)
qed

subsection \<open>The session entry\<close>

text \<open>
  Claim C6. \<open>GetAuthURL\<close> writes the session store only on success, and then one
  entry, under \<open>SessionValueKey\<close>: the marshalled session. When the resolution of the
  provider name, the provider lookup, \<open>BeginAuth\<close> or the retrieval of the authorization
  URL fails, it returns that error beside the empty URL and the context, session store
  included, is left as it was. Entries under other keys are never touched.
\<close>

theorem GetAuthURL_session_atomic:
  "(snd (GetProviderName cfg ctx) = Some e1 \<longrightarrow>
      GetAuthURL lib reg cfg ctx = (('''', Some e1), ctx))
   \<and> (GetProviderName cfg ctx = (name, None) \<and> GetProvider reg name = Inl e2 \<longrightarrow>
      GetAuthURL lib reg cfg ctx = (('''', Some e2), ctx))
   \<and> (GetProviderName cfg ctx = (name, None) \<and> GetProvider reg name = Inr provider
        \<and> BeginAuth lib provider (setState ctx) = Inl e3 \<longrightarrow>
      GetAuthURL lib reg cfg ctx = (('''', Some e3), ctx))
   \<and> (GetProviderName cfg ctx = (name, None) \<and> GetProvider reg name = Inr provider
        \<and> BeginAuth lib provider (setState ctx) = Inr sess
        \<and> SessionGetAuthURL lib sess = Inl e4 \<longrightarrow>
      GetAuthURL lib reg cfg ctx = (('''', Some e4), ctx))
   \<and> (GetProviderName cfg ctx = (name, None) \<and> GetProvider reg name = Inr provider
        \<and> BeginAuth lib provider (setState ctx) = Inr sess
        \<and> SessionGetAuthURL lib sess = Inr url \<longrightarrow>
      GetAuthURL lib reg cfg ctx =
        ((url, None),
         ctx\<lparr>session := (session ctx)(SessionValueKey \<mapsto> StringVal (SessionMarshal lib sess))\<rparr>))
   \<and> (snd (fst (GetAuthURL lib reg cfg ctx)) \<noteq> None \<longrightarrow> snd (GetAuthURL lib reg cfg ctx) = ctx)
   \<and> (k \<noteq> SessionValueKey \<longrightarrow> session (snd (GetAuthURL lib reg cfg ctx)) k = session ctx k)"
proof (intro conjI impI)
  assume "snd (GetProviderName cfg ctx) = Some e1"
  then obtain n where "GetProviderName cfg ctx = (n, Some e1)"
    by (cases "GetProviderName cfg ctx") simp
  then show "GetAuthURL lib reg cfg ctx = (('''', Some e1), ctx)"
    by (simp add: GetAuthURL_def)
next
  assume "GetProviderName cfg ctx = (name, None) \<and> GetProvider reg name = Inl e2"
  then show "GetAuthURL lib reg cfg ctx = (('''', Some e2), ctx)"
    by (simp add: GetAuthURL_def)
next
  assume "GetProviderName cfg ctx = (name, None) \<and> GetProvider reg name = Inr provider
      \<and> BeginAuth lib provider (setState ctx) = Inl e3"
  then show "GetAuthURL lib reg cfg ctx = (('''', Some e3), ctx)"
    by (simp add: GetAuthURL_def)
next
  assume "GetProviderName cfg ctx = (name, None) \<and> GetProvider reg name = Inr provider
      \<and> BeginAuth lib provider (setState ctx) = Inr sess \<and> SessionGetAuthURL lib sess = Inl e4"
  then show "GetAuthURL lib reg cfg ctx = (('''', Some e4), ctx)"
    by (simp add: GetAuthURL_def)
next
  assume "GetProviderName cfg ctx = (name, None) \<and> GetProvider reg name = Inr provider
      \<and> BeginAuth lib provider (setState ctx) = Inr sess \<and> SessionGetAuthURL lib sess = Inr url"
  then show "GetAuthURL lib reg cfg ctx =
      ((url, None),
       ctx\<lparr>session := (session ctx)(SessionValueKey \<mapsto> StringVal (SessionMarshal lib sess))\<rparr>)"
    by (simp add: GetAuthURL_def Session_Set_def)
next
  assume "snd (fst (GetAuthURL lib reg cfg ctx)) \<noteq> None"
  then obtain err where "snd (fst (GetAuthURL lib reg cfg ctx)) = Some err"
    by blast
  then show "snd (GetAuthURL lib reg cfg ctx) = ctx"
    by (simp add: GetAuthURL_error)
next
  assume other: "k \<noteq> SessionValueKey"
  show "session (snd (GetAuthURL lib reg cfg ctx)) k = session ctx k"
  proof (cases "snd (fst (GetAuthURL lib reg cfg ctx))")
    case None
    from GetAuthURL_success [OF None] other show ?thesis
      by auto
  next
    case (Some err)
    then show ?thesis
      by (simp add: GetAuthURL_error)
  qed
qed

text \<open>
  One request for each of the four failures, which leave the context as it was, and
  one that succeeds and stores the session under \<open>auth.session\<close>.
\<close>

theorem GetAuthURL_session_atomic_witness:
  "GetAuthURL example_lib example_registry example_cfg bare_ctx =
      (('''', Some (Error ''getProviderName error: you must select a provider'')), bare_ctx)
   \<and> GetAuthURL example_lib example_registry example_cfg gplus_ctx =
      (('''', Some (Error ''no provider for gplus exists'')), gplus_ctx)
   \<and> GetAuthURL example_lib example_registry example_cfg facebook_ctx =
      (('''', Some (Error ''begin: client rejected'')), facebook_ctx)
   \<and> GetAuthURL example_lib example_registry example_cfg broken_ctx =
      (('''', Some (Error ''session: no auth url'')), broken_ctx)
   \<and> GetAuthURL example_lib example_registry example_cfg github_ctx =
      ((''https://provider.example/auth?state=state'', None),
       github_ctx\<lparr>session := [''auth.session'' \<mapsto> StringVal ''state'']\<rparr>)"
proof -
  let ?github = "\<lparr>Kind = Github, ProviderName = ''github'', ClientKey = ''gk'', Secret = ''gs'',
      CallbackBase = ''http://localhost:8080''\<rparr>"
  let ?facebook = "\<lparr>Kind = Facebook, ProviderName = ''facebook'', ClientKey = ''revoked'',
      Secret = ''fs'', CallbackBase = ''http://localhost:8080''\<rparr>"
  note steps = example_defs GetProviderName_def Param_def URLParam_def provider_defs
  have "GetAuthURL example_lib example_registry example_cfg bare_ctx =
      (('''', Some (Error ''getProviderName error: you must select a provider'')), bare_ctx)"
    using GetAuthURL_session_atomic
            [where lib = example_lib and reg = example_registry and cfg = example_cfg
               and ctx = bare_ctx
               and ?e1.0 = "Error ''getProviderName error: you must select a provider''",
             THEN conjunct1]
    by (simp add: steps)
  moreover have "GetAuthURL example_lib example_registry example_cfg gplus_ctx =
      (('''', Some (Error ''no provider for gplus exists'')), gplus_ctx)"
    using GetAuthURL_session_atomic
            [where lib = example_lib and reg = example_registry and cfg = example_cfg
               and ctx = gplus_ctx and name = "''gplus''"
               and ?e2.0 = "Error ''no provider for gplus exists''",
             THEN conjunct2, THEN conjunct1]
    by (simp add: steps)
  moreover have "GetAuthURL example_lib example_registry example_cfg facebook_ctx =
      (('''', Some (Error ''begin: client rejected'')), facebook_ctx)"
    using GetAuthURL_session_atomic
            [where lib = example_lib and reg = example_registry and cfg = example_cfg
               and ctx = facebook_ctx and name = "''facebook''" and provider = ?facebook
               and ?e3.0 = "Error ''begin: client rejected''",
             THEN conjunct2, THEN conjunct2, THEN conjunct1]
    by (simp add: steps)
  moreover have "GetAuthURL example_lib example_registry example_cfg broken_ctx =
      (('''', Some (Error ''session: no auth url'')), broken_ctx)"
    using GetAuthURL_session_atomic
            [where lib = example_lib and reg = example_registry and cfg = example_cfg
               and ctx = broken_ctx and name = "''github''" and provider = ?github
               and sess = "''broken''" and ?e4.0 = "Error ''session: no auth url''",
             THEN conjunct2, THEN conjunct2, THEN conjunct2, THEN conjunct1]
    by (simp add: steps)
  moreover have "GetAuthURL example_lib example_registry example_cfg github_ctx =
      ((''https://provider.example/auth?state=state'', None),
       github_ctx\<lparr>session := [''auth.session'' \<mapsto> StringVal ''state'']\<rparr>)"
    using GetAuthURL_session_atomic
            [where lib = example_lib and reg = example_registry and cfg = example_cfg
               and ctx = github_ctx and name = "''github''" and provider = ?github
               and sess = "''state''" and url = "''https://provider.example/auth?state=state''",
             THEN conjunct2, THEN conjunct2, THEN conjunct2, THEN conjunct2, THEN conjunct1]
    by (simp add: steps SessionValueKey_def)
  ultimately show ?thesis
    by blast
qed

subsection \<open>The generated providers\<close>

text \<open>
  Claim C7. Every provider of the configuration whose credential pair is set (key and
  secret both non-empty) appears exactly once in the list that
  \<open>Config.GenerateProviders\<close> produces: the list has exactly one provider of that kind,
  and it is the one built from the configured name, key and secret.
\<close>

theorem GenerateProviders_exactly_once:
  assumes "e \<in> set (provider_entries c)" and "credentials_set e"
  shows "count_list (GenerateProviders c vhost) (new_provider vhost e) = 1
       \<and> length (filter (\<lambda>p. Kind p = fst e) (GenerateProviders c vhost)) = 1
       \<and> GenerateProviders c vhost \<noteq> []"
proof -
  note defs = GenerateProviders_def provider_entries_def credentials_set_def new_provider_def
  from assms(1) consider
      "e = (Github, GithubName c, GithubKey c, GithubSecret c)"
    | "e = (Facebook, FacebookName c, FacebookKey c, FacebookSecret c)"
    | "e = (Gplus, GplusName c, GplusKey c, GplusSecret c)"
    by (auto simp: provider_entries_def)
  then show ?thesis
  proof cases
    case 1
    with assms(2) show ?thesis by (simp add: defs)
  next
    case 2
    with assms(2) show ?thesis by (simp add: defs)
  next
    case 3
    with assms(2) show ?thesis by (simp add: defs)
  qed
qed

text \<open>Github in the example configuration.\<close>

theorem GenerateProviders_exactly_once_witness:
  "(Github, ''github'', ''gk'', ''gs'') \<in> set (provider_entries example_cfg)
   \<and> credentials_set (Github, ''github'', ''gk'', ''gs'')
   \<and> count_list (GenerateProviders example_cfg ''http://localhost:8080'')
        \<lparr>Kind = Github, ProviderName = ''github'', ClientKey = ''gk'', Secret = ''gs'',
         CallbackBase = ''http://localhost:8080''\<rparr> = 1
   \<and> length (filter (\<lambda>p. Kind p = Github) (GenerateProviders example_cfg ''http://localhost:8080'')) = 1"
proof -
  have entry: "(Github, ''github'', ''gk'', ''gs'') \<in> set (provider_entries example_cfg)"
    by (simp add: provider_entries_def example_cfg_def)
  have pair_set: "credentials_set (Github, ''github'', ''gk'', ''gs'')"
    by (simp add: credentials_set_def)
  from GenerateProviders_exactly_once [OF entry pair_set, of "''http://localhost:8080''"]
  show ?thesis using entry pair_set by (simp add: new_provider_def)
qed

subsection \<open>Booting the adaptor\<close>

text \<open>
  Claim C8, as amended. When \<open>Config.RequestPath\<close>, \<open>Config.CallbackRelativePath\<close>
  or \<open>Config.RequestPathParam\<close> is the empty string, or the generated provider list
  is empty, \<open>boot\<close> registers nothing: the routes and the error handlers of the
  framework, the registry of providers and the adaptor itself are as before. When one
  of the three strings is empty, the "oauth adaptor disabled" message is logged and
  nothing else changes. When the three strings are set and only the provider list is
  empty, nothing is logged either: the framework is returned as it was.
\<close>

theorem boot_disabled_registers_nothing:
  assumes "RequestPath (Config p) = '''' \<or> CallbackRelativePath (Config p) = ''''
      \<or> RequestPathParam (Config p) = ''''
      \<or> GenerateProviders (Config p) (VScheme s @ VHost s) = []"
    and "boot p s reg = (p', s', reg')"
  shows "p' = p \<and> reg' = reg
       \<and> routes s' = routes s \<and> errorHandlers s' = errorHandlers s
       \<and> s' = (if RequestPath (Config p) = '''' \<or> CallbackRelativePath (Config p) = ''''
                    \<or> RequestPathParam (Config p) = ''''
                then s\<lparr>logged := logged s @ [(ProdMode, disabled_msg)]\<rparr>
                else s)"
proof (cases "RequestPath (Config p) = '''' \<or> CallbackRelativePath (Config p) = ''''
    \<or> RequestPathParam (Config p) = ''''")
  case True
  with assms(2) show ?thesis
    by (auto simp: boot_def FrameworkLog_def)
next
  case False
  with assms(1) have "GenerateProviders (Config p) (VScheme s @ VHost s) = []"
    by blast
  with False assms(2) show ?thesis
    by (simp add: boot_def Let_def)
qed

text \<open>
  The adaptor of the example with an empty request path, and with no credentials at
  all; with the configuration of the example itself, \<open>boot\<close> registers two routes.
\<close>

theorem boot_disabled_registers_nothing_witness:
  "RequestPath (Config (example_oauth no_path_cfg)) = ''''
   \<and> boot (example_oauth no_path_cfg) example_framework Map.empty =
       (example_oauth no_path_cfg,
        example_framework\<lparr>logged := [(ProdMode, disabled_msg)]\<rparr>,
        Map.empty)
   \<and> GenerateProviders (Config (example_oauth no_credentials_cfg))
        (VScheme example_framework @ VHost example_framework) = []
   \<and> boot (example_oauth no_credentials_cfg) example_framework Map.empty =
       (example_oauth no_credentials_cfg, example_framework, Map.empty)
   \<and> length (routes (fst (snd (boot (example_oauth example_cfg) example_framework Map.empty)))) = 2"
proof -
  have no_path: "RequestPath (Config (example_oauth no_path_cfg)) = ''''"
    by (simp add: example_oauth_def no_path_cfg_def)
  have no_providers:
    "GenerateProviders (Config (example_oauth no_credentials_cfg))
       (VScheme example_framework @ VHost example_framework) = []"
    by (simp add: example_oauth_def no_credentials_cfg_def example_cfg_def provider_defs)
  obtain p1 s1 r1 where
    b1: "boot (example_oauth no_path_cfg) example_framework Map.empty = (p1, s1, r1)"
    by (cases "boot (example_oauth no_path_cfg) example_framework Map.empty") auto
  obtain p2 s2 r2 where
    b2: "boot (example_oauth no_credentials_cfg) example_framework Map.empty = (p2, s2, r2)"
    by (cases "boot (example_oauth no_credentials_cfg) example_framework Map.empty") auto
  have first: "boot (example_oauth no_path_cfg) example_framework Map.empty =
       (example_oauth no_path_cfg,
        example_framework\<lparr>logged := [(ProdMode, disabled_msg)]\<rparr>,
        Map.empty)"
    using boot_disabled_registers_nothing [OF disjI1 [OF no_path] b1] b1 no_path
    by (simp add: example_framework_def)
  have non_empty_paths:
    "\<not> (RequestPath (Config (example_oauth no_credentials_cfg)) = ''''
        \<or> CallbackRelativePath (Config (example_oauth no_credentials_cfg)) = ''''
        \<or> RequestPathParam (Config (example_oauth no_credentials_cfg)) = '''')"
    by (simp add: example_oauth_def no_credentials_cfg_def example_cfg_def)
  have second: "boot (example_oauth no_credentials_cfg) example_framework Map.empty =
       (example_oauth no_credentials_cfg, example_framework, Map.empty)"
    using boot_disabled_registers_nothing [OF disjI2 [OF disjI2 [OF disjI2 [OF no_providers]]] b2]
      b2 non_empty_paths
    by simp
  have enabled:
    "length (routes (fst (snd (boot (example_oauth example_cfg) example_framework Map.empty)))) = 2"
    by (simp add: boot_def example_oauth_def example_cfg_def example_framework_def provider_defs
        HandleGet_def OnError_def denied_page_def)
  from no_path first no_providers second enabled show ?thesis
    by blast
qed

text \<open>
  The claim as it is written fails where it speaks of a log message for every one of
  the four cases: with all three strings set and no credentials at all, the provider
  list is empty and \<open>boot\<close> returns the framework as it was, its log included.
\<close>

theorem boot_empty_providers_counterexample:
  "RequestPath (Config (example_oauth no_credentials_cfg)) \<noteq> []
   \<and> CallbackRelativePath (Config (example_oauth no_credentials_cfg)) \<noteq> []
   \<and> RequestPathParam (Config (example_oauth no_credentials_cfg)) \<noteq> []
   \<and> GenerateProviders (Config (example_oauth no_credentials_cfg))
        (VScheme example_framework @ VHost example_framework) = []
   \<and> boot (example_oauth no_credentials_cfg) example_framework empty_registry =
       (example_oauth no_credentials_cfg, example_framework, empty_registry)
   \<and> logged (fst (snd (boot (example_oauth no_credentials_cfg) example_framework empty_registry))) =
       logged example_framework
   \<and> logged example_framework = []"
  by (simp add: boot_def example_oauth_def no_credentials_cfg_def example_cfg_def
      example_framework_def provider_defs)

subsection \<open>The user of the context\<close>

text \<open>
  Claim C10. \<open>User\<close> asserts, unchecked, that the value stored under \<open>Config.ContextKey\<close>
  is a \<open>goth.User\<close>. It returns a user exactly when a \<open>goth.User\<close> is stored under
  that key, and then that user; this is the case after the callback middleware has
  succeeded. For a context with no entry under the key (and for one that holds nil or
  a value of another type there) the assertion fails: the call panics and does not
  return a nil or zero user.
\<close>

theorem User_type_assertion:
  "(User cfg ctx = Inr u \<longleftrightarrow> vals ctx (ContextKey cfg) = Some (UserVal u))
   \<and> (vals ctx (ContextKey cfg) = None \<longrightarrow> User cfg ctx = Inl TypeAssertionPanic)
   \<and> (User cfg ctx = Inl TypeAssertionPanic \<or> (\<exists>u'. User cfg ctx = Inr u'))
   \<and> (CompleteUserAuth lib reg cfg ctx = (user, None) \<longrightarrow>
        User cfg (Do lib reg cfg [AuthMiddleware] ctx) = Inr user)"
proof (intro conjI impI)
  show "User cfg ctx = Inr u \<longleftrightarrow> vals ctx (ContextKey cfg) = Some (UserVal u)"
    by (auto simp: User_def Get_def split: option.splits iface.splits)
next
  assume "vals ctx (ContextKey cfg) = None"
  then show "User cfg ctx = Inl TypeAssertionPanic"
    by (simp add: User_def Get_def)
next
  show "User cfg ctx = Inl TypeAssertionPanic \<or> (\<exists>u'. User cfg ctx = Inr u')"
    by (simp add: User_def split: iface.splits)
next
  assume "CompleteUserAuth lib reg cfg ctx = (user, None)"
  then show "User cfg (Do lib reg cfg [AuthMiddleware] ctx) = Inr user"
    by (simp add: authMiddleware_def Next_def Set_def User_def Get_def)
qed

text \<open>
  The callback of the example before the middleware has run, and after it has
  succeeded.
\<close>

theorem User_type_assertion_witness:
  "vals callback_ctx (ContextKey example_cfg) = None
   \<and> User example_cfg callback_ctx = Inl TypeAssertionPanic
   \<and> CompleteUserAuth example_lib example_registry example_cfg callback_ctx =
       (\<lparr>Provider = ''github'', UserID = ''state42'', Name = '''', Email = '''', AccessToken = ''''\<rparr>,
        None)
   \<and> User example_cfg (Do example_lib example_registry example_cfg [AuthMiddleware] callback_ctx) =
       Inr \<lparr>Provider = ''github'', UserID = ''state42'', Name = '''', Email = '''', AccessToken = ''''\<rparr>"
proof -
  let ?user = "\<lparr>Provider = ''github'', UserID = ''state42'', Name = '''', Email = '''',
      AccessToken = ''''\<rparr>"
  have no_entry: "vals callback_ctx (ContextKey example_cfg) = None"
    by (simp add: callback_ctx_def bare_ctx_def)
  have completes:
    "CompleteUserAuth example_lib example_registry example_cfg callback_ctx = (?user, None)"
    by (simp add: example_defs CompleteUserAuth_def GetProviderName_def Param_def URLParam_def
        provider_defs Session_Get_def Session_GetString_def SessionValueKey_def)
  note facts = User_type_assertion
      [where cfg = example_cfg and ctx = callback_ctx and lib = example_lib
         and reg = example_registry and user = ?user and u = ?user]
  from facts [THEN conjunct2, THEN conjunct1] no_entry
  have panics: "User example_cfg callback_ctx = Inl TypeAssertionPanic"
    by simp
  from facts [THEN conjunct2, THEN conjunct2, THEN conjunct2] completes
  have returns:
    "User example_cfg (Do example_lib example_registry example_cfg [AuthMiddleware] callback_ctx) =
       Inr ?user"
    by simp
  from no_entry panics completes returns show ?thesis
    by blast
qed

end
